theory Spec2Isabelle
  imports Main
begin

section \<open>The release build job (scripts/jobs/build-release.js)\<close>

text \<open>
  A shallow embedding of the build-release job. Strings are lists of characters, one
  per code unit of the JavaScript string (package names, versions, ids and the markers
  searched in the log are ASCII); release and build ids, retry counts and durations in
  milliseconds are natural numbers. Every call of an external collaborator (record
  store, pipeline service, log fetch, logger, timer) is recorded as an event of a trace,
  in the order the source awaits them; the values the collaborators answer with are the
  fields of an environment record. The collaborators are taken to answer; the errors
  modelled are the two the job itself throws.
\<close>

subsection \<open>Data model\<close>

text \<open>
  Modelled from the spec: the enums \<open>ReleaseState\<close> and \<open>ReleaseReason\<close> of
  app/models/common are not among the source files; their members are those of the
  data model (section 3 of the spec). \<open>reasonNone\<close> is the empty reason, which the
  source writes as the empty string.
\<close>

datatype ReleaseState = pending | building | succeeded | failed

datatype ReleaseReason =
  reasonNone | timeout | publishConflict | nonPackage | badGateway | serverError

text \<open>
  Modelled from the spec: the enums \<open>BuildStatus\<close> and \<open>BuildResult\<close> belong to the
  pipeline client library, which is not among the source files. Their members are the
  statuses and results the spec names (sections 3 and 6) and the further members of the
  library's enums. On a member of the enum \<open>getKeyOrThrow\<close> returns the member's name,
  so the log lines carry the member itself. A build's \<open>result\<close> may be undefined: it
  is an option.
\<close>

datatype BuildStatus =
  StatusNone | InProgress | Completed | Cancelling | Postponed | NotStarted | StatusAll

datatype BuildResult =
  ResultNone | Succeeded | PartiallySucceeded | Failed | Canceled

record Build =
  build_ident :: nat
  status :: BuildStatus
  result :: "BuildResult option"

record Release =
  ident :: nat
  package_id :: nat
  version :: string
  tag :: string
  state :: ReleaseState
  build_id :: string
  reason :: ReleaseReason
  publish_log :: string

record Package =
  project_id :: nat
  name :: string

record Project =
  gitUrl :: string

record BuildParameters =
  repo_url :: string
  repo_branch :: string
  package_name :: string
  package_ver :: string
  build_name :: string

record BuildRequest =
  definition_id :: nat
  parameters :: BuildParameters

text \<open>The values read from \<open>config.azureDevops\<close>.\<close>

record Config =
  definitionId :: nat
  project :: string
  check_retries :: nat
  check_retryIntervalStep :: nat
  check_duration :: nat

text \<open>
  The answers of the external collaborators. \<open>getBuild\<close> answers the \<open>i\<close>-th status
  request of an invocation for a build id; \<open>buildPublishResultUrl\<close> is the getter of the
  Release model that the source reads the log location from.
\<close>

record Env =
  fetchRelease :: "nat \<Rightarrow> Release"
  fetchPackage :: "nat \<Rightarrow> Package"
  fetchProject :: "nat \<Rightarrow> Project"
  queueBuild :: "BuildRequest \<Rightarrow> string \<Rightarrow> Build"
  getBuild :: "string \<Rightarrow> nat \<Rightarrow> Build"
  buildPublishResultUrl :: "Release \<Rightarrow> string"
  httpGetText :: "string \<Rightarrow> string"

text \<open>A partial update names the fields it writes.\<close>

datatype Field =
  F_state ReleaseState
| F_build_id string
| F_reason ReleaseReason
| F_publish_log string

datatype LogMessage =
  MsgSkip nat ReleaseState
| MsgCreate nat
| MsgCheck nat string
| MsgStatus nat string BuildStatus "BuildResult option" nat
| MsgSucceeded nat string
| MsgFailed nat string BuildStatus "BuildResult option" ReleaseReason

datatype Event =
  LogInfo LogMessage
| LogError LogMessage
| ReleaseFetchOne nat
| Update "Field list"
| GetBuildApi
| PackageFetchOne nat
| ProjectFetchOne nat
| QueueBuild BuildRequest string
| GetBuild string string
| Sleep nat
| HttpGet string

datatype Error =
  PipelinesTimeout nat string
| PipelinesFailed nat string BuildStatus "BuildResult option"

subsection \<open>Strings\<close>

text \<open>The decimal rendering of a number, as \<open>'rel#' + releaseId\<close> and \<open>build.id + ''\<close> produce.\<close>

definition digit :: "nat \<Rightarrow> char" where
  "digit d = ''0123456789'' ! d"

function string_of_nat :: "nat \<Rightarrow> string" where
  "string_of_nat n =
     (if n < 10 then [digit n] else string_of_nat (n div 10) @ [digit (n mod 10)])"
  by pat_completeness auto
termination
  by (relation "measure (\<lambda>n. n)") auto

declare string_of_nat.simps [simp del]

text \<open>\<open>text.startsWith(s)\<close> and \<open>text.includes(s)\<close>.\<close>

fun startsWith :: "string \<Rightarrow> string \<Rightarrow> bool" where
  "startsWith text [] = True"
| "startsWith [] (c # cs) = False"
| "startsWith (t # ts) (c # cs) = (t = c \<and> startsWith ts cs)"

fun includes_str :: "string \<Rightarrow> string \<Rightarrow> bool" where
  "includes_str [] s = (s = [])"
| "includes_str (t # ts) s = (startsWith (t # ts) s \<or> includes_str ts s)"

subsection \<open>The build name\<close>

text \<open>The character class of the regular expression \<open>/[\/:<>\\|\?@\*]/g\<close>.\<close>

definition illegal :: "char \<Rightarrow> bool" where
  "illegal c = (c = CHR ''/'' \<or> c = CHR '':'' \<or> c = CHR ''<'' \<or> c = CHR ''>'' \<or>
     c = CHR 0x5C \<or> c = CHR ''|'' \<or> c = CHR ''?'' \<or> c = CHR ''@'' \<or> c = CHR ''*'')"

definition replace_illegal :: "string \<Rightarrow> string" where
  "replace_illegal s = map (\<lambda>c. if illegal c then CHR ''_'' else c) s"

definition getBuildName :: "nat \<Rightarrow> string \<Rightarrow> string \<Rightarrow> string" where
  "getBuildName releaseId packageName packageVer =
     (let buildName = packageName @ ''#'' @ packageVer;
          buildName = (if startsWith buildName ''@'' then drop 1 buildName else buildName);
          buildName = ''rel#'' @ string_of_nat releaseId @ ''-'' @ buildName;
          buildName = replace_illegal buildName
      in take (255 - 55) buildName)"



subsection \<open>The failure classifier\<close>

definition getReasonFromPublishLog :: "string \<Rightarrow> ReleaseReason" where
  "getReasonFromPublishLog text =
     (if includes_str text ''EPUBLISHCONFLICT'' then publishConflict
      else if includes_str text ''ENOENT'' \<and> includes_str text ''error path package.json'' then nonPackage
      else if includes_str text ''error code E502'' then badGateway
      else if includes_str text ''error code E500'' then serverError
      else reasonNone)"

text \<open>
  The classifier as the spec words it: a list of rules in priority order, each a
  condition on the log text and the reason it gives; the first rule that matches wins.
\<close>

definition classification_rules :: "((string \<Rightarrow> bool) \<times> ReleaseReason) list" where
  "classification_rules =
     [(\<lambda>t. includes_str t ''EPUBLISHCONFLICT'', publishConflict),
      (\<lambda>t. includes_str t ''ENOENT'' \<and> includes_str t ''error path package.json'', nonPackage),
      (\<lambda>t. includes_str t ''error code E502'', badGateway),
      (\<lambda>t. includes_str t ''error code E500'', serverError)]"

fun first_match :: "((string \<Rightarrow> bool) \<times> ReleaseReason) list \<Rightarrow> string \<Rightarrow> ReleaseReason" where
  "first_match [] text = reasonNone"
| "first_match ((matches, r) # rules) text =
     (if matches text then r else first_match rules text)"

subsection \<open>The record store\<close>

text \<open>
  Modelled from the spec: \<open>Release.update\<close> of app/models/release is not among the
  source files. It applies a partial update of the named fields to the release as one
  atomic operation against the record store; the release object the builder holds
  carries the written values afterwards.
\<close>

fun assign :: "Release \<Rightarrow> Field \<Rightarrow> Release" where
  "assign r (F_state s) = r\<lparr>state := s\<rparr>"
| "assign r (F_build_id b) = r\<lparr>build_id := b\<rparr>"
| "assign r (F_reason x) = r\<lparr>reason := x\<rparr>"
| "assign r (F_publish_log l) = r\<lparr>publish_log := l\<rparr>"

definition update :: "Release \<Rightarrow> Field list \<Rightarrow> Release" where
  "update r flds = foldl assign r flds"

text \<open>
  What an observer of the record store sees along a trace: the release as persisted
  after each update, in order.
\<close>

fun persisted :: "Release \<Rightarrow> Event list \<Rightarrow> Release list" where
  "persisted r [] = []"
| "persisted r (Update flds # evs) = update r flds # persisted (update r flds) evs"
| "persisted r (ev # evs) = persisted r evs"

text \<open>The release as the record store holds it at the end of a trace.\<close>

fun replay :: "Release \<Rightarrow> Event list \<Rightarrow> Release" where
  "replay r [] = r"
| "replay r (Update flds # evs) = replay (update r flds) evs"
| "replay r (ev # evs) = replay r evs"

text \<open>The updates, the waits, the queued builds and the polled build ids of a trace.\<close>

fun updates_of :: "Event list \<Rightarrow> Field list list" where
  "updates_of [] = []"
| "updates_of (Update flds # evs) = flds # updates_of evs"
| "updates_of (ev # evs) = updates_of evs"

fun sleeps_of :: "Event list \<Rightarrow> nat list" where
  "sleeps_of [] = []"
| "sleeps_of (Sleep d # evs) = d # sleeps_of evs"
| "sleeps_of (ev # evs) = sleeps_of evs"

fun queued_of :: "Event list \<Rightarrow> BuildRequest list" where
  "queued_of [] = []"
| "queued_of (QueueBuild req p # evs) = req # queued_of evs"
| "queued_of (ev # evs) = queued_of evs"

fun polled_of :: "Event list \<Rightarrow> string list" where
  "polled_of [] = []"
| "polled_of (GetBuild p b # evs) = b # polled_of evs"
| "polled_of (ev # evs) = polled_of evs"

subsection \<open>The release builder\<close>

text \<open>\<open>getPublishLog\<close>: one request to the release's publish result location.\<close>

definition getPublishLog :: "Env \<Rightarrow> Release \<Rightarrow> Event list \<times> string" where
  "getPublishLog env r =
     (let url = buildPublishResultUrl env r in ([HttpGet url], httpGetText env url))"

text \<open>
  \<open>CreateBuildPipelines\<close>: reads the package and its project, queues one build and
  returns the build object. The parameters are kept as a record (the source sends them
  as JSON text).
\<close>

definition CreateBuildPipelines :: "Config \<Rightarrow> Env \<Rightarrow> Release \<Rightarrow> Event list \<times> Build" where
  "CreateBuildPipelines cfg env r =
     (let pkg = fetchPackage env (package_id r);
          proj = fetchProject env (project_id pkg);
          req = \<lparr>definition_id = definitionId cfg,
                 parameters = \<lparr>repo_url = gitUrl proj, repo_branch = tag r,
                   package_name = name pkg, package_ver = version r,
                   build_name = getBuildName (ident r) (name pkg) (version r)\<rparr>\<rparr>
      in ([LogInfo (MsgCreate (ident r)), PackageFetchOne (package_id r),
           ProjectFetchOne (project_id pkg), QueueBuild req (project cfg)],
          queueBuild env req (project cfg)))"

text \<open>
  \<open>checkBuildPipelines\<close>: the loop \<open>for (let i = 0; i < retries; i++)\<close> from index \<open>i\<close>
  on, and the method itself, which logs and starts the loop at 0. \<open>None\<close> is the
  source's \<open>null\<close>.
\<close>

function checkLoop :: "Config \<Rightarrow> Env \<Rightarrow> Release \<Rightarrow> nat \<Rightarrow> Event list \<times> Build option" where
  "checkLoop cfg env r i =
     (if i < check_retries cfg then
        (let build = getBuild env (build_id r) i;
             evs = [GetBuild (project cfg) (build_id r),
                    LogInfo (MsgStatus (ident r) (build_id r) (status build) (result build) i)]
         in if status build = Completed \<or> status build = Cancelling then (evs, Some build)
            else (let (evs', res) = checkLoop cfg env r (i + 1)
                  in (evs @ Sleep (check_retryIntervalStep cfg * (i + 1)) # evs', res)))
      else ([], None))"
  by pat_completeness auto
termination
  by (relation "measure (\<lambda>(cfg, env, r, i). check_retries cfg - i)") auto

declare checkLoop.simps [simp del]

definition checkBuildPipelines :: "Config \<Rightarrow> Env \<Rightarrow> Release \<Rightarrow> Event list \<times> Build option" where
  "checkBuildPipelines cfg env r =
     (let (evs, res) = checkLoop cfg env r 0
      in (LogInfo (MsgCheck (ident r) (build_id r)) # evs, res))"

text \<open>
  \<open>build\<close>, in the steps its comments name. \<open>handleBuildingState\<close> is
  "Handle building state" (lines 42 to 47).
\<close>

definition handleBuildingState :: "Release \<Rightarrow> Event list \<times> Release" where
  "handleBuildingState r =
     (if state r = failed \<and> reason r = timeout then
        ([Update [F_state building]], update r [F_state building])
      else if state r = pending \<or> state r = failed then
        ([Update [F_state building, F_build_id '''']],
         update r [F_state building, F_build_id ''''])
      else ([], r))"

text \<open>
  \<open>startBuildPipelines\<close> is "Start new build pipelines if need" (lines 51 to 56);
  \<open>!this.release.build_id\<close> holds of the empty build id.
\<close>

definition startBuildPipelines :: "Config \<Rightarrow> Env \<Rightarrow> Release \<Rightarrow> Event list \<times> Release" where
  "startBuildPipelines cfg env r =
     (if build_id r = [] then
        (let (evs, build) = CreateBuildPipelines cfg env r;
             flds = [F_build_id (string_of_nat (build_ident build))]
         in (evs @ [Update flds, Sleep (check_duration cfg)], update r flds))
      else ([], r))"

text \<open>
  \<open>finishBuild\<close> is what follows "Wait build pipelines to finish" once the loop has
  returned (lines 59 to 93): the three outcomes, the last with the log fetch, the
  classification and the choice between logging and throwing.
\<close>

definition finishBuild :: "Env \<Rightarrow> Release \<Rightarrow> Build option \<Rightarrow> Event list \<times> Release \<times> (Error + unit)" where
  "finishBuild env r res =
     (case res of
        None \<Rightarrow>
          (let flds = [F_state failed, F_reason timeout]; r' = update r flds
           in ([Update flds], r', Inl (PipelinesTimeout (ident r') (build_id r'))))
      | Some build \<Rightarrow>
          if status build = Completed \<and> result build = Some Succeeded then
            (let r' = update r [F_state succeeded]
             in ([Update [F_state succeeded], LogInfo (MsgSucceeded (ident r') (build_id r'))],
                 r', Inr ()))
          else
            (let r1 = update r [F_state failed];
                 (evs, rsn, r2) =
                   (if status build = Completed \<and> result build = Some Failed then
                      (let (evs, publishLog) = getPublishLog env r1;
                           rsn = getReasonFromPublishLog publishLog;
                           flds = [F_publish_log publishLog, F_reason rsn]
                       in (evs @ [Update flds], rsn, update r1 flds))
                    else ([], reasonNone, r1))
             in if rsn \<noteq> badGateway \<and> rsn \<noteq> serverError then
                  (Update [F_state failed] # evs @
                     [LogError (MsgFailed (ident r2) (build_id r2) (status build) (result build) rsn)],
                   r2, Inr ())
                else
                  (Update [F_state failed] # evs, r2,
                   Inl (PipelinesFailed (ident r2) (build_id r2) (status build) (result build)))))"

text \<open>
  \<open>build\<close> returns the trace, the release as the builder leaves it, and \<open>Inl\<close> of the
  error it throws or \<open>Inr ()\<close> when it returns. The throw comes after every event of
  the trace.
\<close>

definition build :: "Config \<Rightarrow> Env \<Rightarrow> Release \<Rightarrow> Event list \<times> Release \<times> (Error + unit)" where
  "build cfg env r =
     (if state r = succeeded then ([LogInfo (MsgSkip (ident r) (state r))], r, Inr ())
      else
        (let (evs1, r1) = handleBuildingState r;
             (evs2, r2) = startBuildPipelines cfg env r1;
             (evs3, res) = checkBuildPipelines cfg env r2;
             (evs4, r4, out) = finishBuild env r2 res
         in (evs1 @ GetBuildApi # evs2 @ evs3 @ evs4, r4, out)))"

text \<open>\<open>buildRelease\<close> loads the release and runs the builder on it.\<close>

definition buildRelease :: "Config \<Rightarrow> Env \<Rightarrow> nat \<Rightarrow> Event list \<times> Release \<times> (Error + unit)" where
  "buildRelease cfg env i =
     (let release = fetchRelease env i;
          (evs, r, out) = build cfg env release
      in (ReleaseFetchOne i # evs, r, out))"

subsection \<open>Names used in the statements\<close>

text \<open>
  The release as the polling loop finds it, the events up to there, what the loop
  returns, and whether a build ends the loop.
\<close>

definition beforePolling :: "Config \<Rightarrow> Env \<Rightarrow> Release \<Rightarrow> Release" where
  "beforePolling cfg env r = snd (startBuildPipelines cfg env (snd (handleBuildingState r)))"

definition eventsBeforePolling :: "Config \<Rightarrow> Env \<Rightarrow> Release \<Rightarrow> Event list" where
  "eventsBeforePolling cfg env r =
     fst (handleBuildingState r) @ GetBuildApi #
     fst (startBuildPipelines cfg env (snd (handleBuildingState r)))"

definition polling :: "Config \<Rightarrow> Env \<Rightarrow> Release \<Rightarrow> Event list \<times> Build option" where
  "polling cfg env r = checkBuildPipelines cfg env (beforePolling cfg env r)"

definition terminal :: "Build \<Rightarrow> bool" where
  "terminal b = (status b = Completed \<or> status b = Cancelling)"

text \<open>
  The events of the attempt with index \<open>i\<close> of the polling loop, and of an attempt
  followed by its wait.
\<close>

definition attemptEvents :: "Config \<Rightarrow> Env \<Rightarrow> Release \<Rightarrow> nat \<Rightarrow> Event list" where
  "attemptEvents cfg env r i =
     [GetBuild (project cfg) (build_id r),
      LogInfo (MsgStatus (ident r) (build_id r) (status (getBuild env (build_id r) i))
        (result (getBuild env (build_id r) i)) i)]"

definition waitedAttempt :: "Config \<Rightarrow> Env \<Rightarrow> Release \<Rightarrow> nat \<Rightarrow> Event list" where
  "waitedAttempt cfg env r i =
     attemptEvents cfg env r i @ [Sleep (check_retryIntervalStep cfg * (i + 1))]"

subsection \<open>Example inputs\<close>

text \<open>
  A configuration of three attempts with a step of one second, a pending release, and
  a pipeline that answers the status requests with a given sequence and the log fetch
  with a given text.
\<close>

definition cfg0 :: Config where
  "cfg0 = \<lparr>definitionId = 1, project = ''openupm'', check_retries = 3,
            check_retryIntervalStep = 1000, check_duration = 5000\<rparr>"

definition release0 :: Release where
  "release0 = \<lparr>ident = 7, package_id = 3, version = ''1.2.3'', tag = ''v1.2.3'',
     state = pending, build_id = '''', reason = reasonNone, publish_log = ''''\<rparr>"

definition env0 :: "(nat \<Rightarrow> Build) \<Rightarrow> string \<Rightarrow> Env" where
  "env0 answers logText =
     \<lparr>fetchRelease = (\<lambda>i. release0),
      fetchPackage = (\<lambda>i. \<lparr>project_id = 5, name = ''@scope/pkg''\<rparr>),
      fetchProject = (\<lambda>i. \<lparr>gitUrl = ''https://example.org/repo.git''\<rparr>),
      queueBuild = (\<lambda>req p. \<lparr>build_ident = 99, status = NotStarted, result = None\<rparr>),
      getBuild = (\<lambda>b. answers),
      buildPublishResultUrl = (\<lambda>r. ''https://example.org/log/'' @ build_id r),
      httpGetText = (\<lambda>url. logText)\<rparr>"

definition inProgress :: Build where
  "inProgress = \<lparr>build_ident = 99, status = InProgress, result = None\<rparr>"

definition completed :: "BuildResult \<Rightarrow> Build" where
  "completed res = \<lparr>build_ident = 99, status = Completed, result = Some res\<rparr>"

definition third :: "Build \<Rightarrow> nat \<Rightarrow> Build" where
  "third b i = (if i < 2 then inProgress else b)"

text \<open>A record store that holds the release in state succeeded.\<close>

definition envSucceeded :: Env where
  "envSucceeded =
     (env0 (\<lambda>i. inProgress) '''')\<lparr>fetchRelease := (\<lambda>i. release0\<lparr>state := succeeded\<rparr>)\<rparr>"

section \<open>Properties\<close>

subsection \<open>Strings\<close>

lemma startsWith_iff: "startsWith str s \<longleftrightarrow> (\<exists>rest. str = s @ rest)"
  by (induction str s rule: startsWith.induct) auto

lemma includes_iff: "includes_str str s \<longleftrightarrow> (\<exists>before after. str = before @ s @ after)"
proof (induction str)
  case Nil
  then show ?case by simp
next
  case (Cons t ts)
  show ?case
  proof
    assume "includes_str (t # ts) s"
    then consider "startsWith (t # ts) s" | "includes_str ts s" by auto
    then show "\<exists>before after. t # ts = before @ s @ after"
    proof cases
      case 1
      then obtain rest where "t # ts = s @ rest" by (auto simp: startsWith_iff)
      then have "t # ts = [] @ s @ rest" by simp
      then show ?thesis by blast
    next
      case 2
      then obtain b a where "ts = b @ s @ a" using Cons.IH by blast
      then have "t # ts = (t # b) @ s @ a" by simp
      then show ?thesis by blast
    qed
  next
    assume "\<exists>before after. t # ts = before @ s @ after"
    then obtain b a where eq: "t # ts = b @ s @ a" by blast
    show "includes_str (t # ts) s"
    proof (cases b)
      case Nil
      with eq have "startsWith (t # ts) s" by (auto simp: startsWith_iff)
      then show ?thesis by simp
    next
      case (Cons b0 bs)
      with eq have "ts = bs @ s @ a" by simp
      then have "includes_str ts s" using Cons.IH by blast
      then show ?thesis by simp
    qed
  qed
qed

subsection \<open>The build name\<close>






lemma string_of_nat_not_empty: "string_of_nat n \<noteq> []"
  by (simp add: string_of_nat.simps [of n])






subsection \<open>The failure classifier\<close>

text \<open>
  C8. \<open>getReasonFromPublishLog\<close> returns what the first matching rule of the list
  publishConflict, nonPackage, badGateway, serverError gives, and the empty reason when
  no rule matches; a log text that contains both \<open>EPUBLISHCONFLICT\<close> and
  \<open>error code E502\<close> is classified as publishConflict.
\<close>

theorem getReasonFromPublishLog_priority:
  "getReasonFromPublishLog t = first_match classification_rules t
   \<and> (includes_str t ''EPUBLISHCONFLICT'' \<and> includes_str t ''error code E502''
        \<longrightarrow> getReasonFromPublishLog t = publishConflict)"
  by (simp add: classification_rules_def getReasonFromPublishLog_def)

theorem getReasonFromPublishLog_priority_witness:
  "includes_str ''error code E502, EPUBLISHCONFLICT'' ''EPUBLISHCONFLICT''
   \<and> includes_str ''error code E502, EPUBLISHCONFLICT'' ''error code E502''
   \<and> getReasonFromPublishLog ''error code E502, EPUBLISHCONFLICT'' = publishConflict"
proof -
  have a: "includes_str ''error code E502, EPUBLISHCONFLICT'' ''EPUBLISHCONFLICT''"
    by code_simp
  have b: "includes_str ''error code E502, EPUBLISHCONFLICT'' ''error code E502''"
    by code_simp
  from a b getReasonFromPublishLog_priority [of "''error code E502, EPUBLISHCONFLICT''"]
  show ?thesis by blast
qed

subsection \<open>The polling loop\<close>

lemma updates_of_append: "updates_of (a @ b) = updates_of a @ updates_of b"
  by (induction a rule: updates_of.induct) auto

lemma sleeps_of_append: "sleeps_of (a @ b) = sleeps_of a @ sleeps_of b"
  by (induction a rule: sleeps_of.induct) auto

lemma queued_of_append: "queued_of (a @ b) = queued_of a @ queued_of b"
  by (induction a rule: queued_of.induct) auto

lemma polled_of_append: "polled_of (a @ b) = polled_of a @ polled_of b"
  by (induction a rule: polled_of.induct) auto

lemma checkLoop_done: "\<not> i < check_retries cfg \<Longrightarrow> checkLoop cfg env r i = ([], None)"
  by (simp add: checkLoop.simps [of cfg env r i])

lemma checkLoop_terminal:
  "i < check_retries cfg \<Longrightarrow> terminal (getBuild env (build_id r) i) \<Longrightarrow>
   checkLoop cfg env r i = (attemptEvents cfg env r i, Some (getBuild env (build_id r) i))"
  by (simp add: checkLoop.simps [of cfg env r i] terminal_def attemptEvents_def Let_def)

lemma checkLoop_wait:
  "i < check_retries cfg \<Longrightarrow> \<not> terminal (getBuild env (build_id r) i) \<Longrightarrow>
   checkLoop cfg env r i =
     (waitedAttempt cfg env r i @ fst (checkLoop cfg env r (Suc i)),
      snd (checkLoop cfg env r (Suc i)))"
  by (simp add: checkLoop.simps [of cfg env r i] terminal_def attemptEvents_def
      waitedAttempt_def Let_def split_beta)

lemma checkLoop_found:
  "i \<le> k \<Longrightarrow> k < check_retries cfg \<Longrightarrow>
   (\<forall>j. i \<le> j \<and> j < k \<longrightarrow> \<not> terminal (getBuild env (build_id r) j)) \<Longrightarrow>
   terminal (getBuild env (build_id r) k) \<Longrightarrow>
   checkLoop cfg env r i =
     (concat (map (waitedAttempt cfg env r) [i..<k]) @ attemptEvents cfg env r k,
      Some (getBuild env (build_id r) k))"
proof (induction "k - i" arbitrary: i)
  case 0
  then have "i = k" by simp
  with 0 show ?case by (simp add: checkLoop_terminal)
next
  case (Suc d)
  then have lt: "i < k" and d: "d = k - Suc i" by simp_all
  from Suc.prems lt have nt: "\<not> terminal (getBuild env (build_id r) i)" by simp
  from lt Suc.prems have i: "i < check_retries cfg" by simp
  have rest: "checkLoop cfg env r (Suc i) =
     (concat (map (waitedAttempt cfg env r) [Suc i..<k]) @ attemptEvents cfg env r k,
      Some (getBuild env (build_id r) k))"
    using Suc.hyps(1) [OF d] lt Suc.prems by simp
  show ?case
    using lt by (simp add: checkLoop_wait [OF i nt] rest upt_conv_Cons)
qed

lemma checkLoop_exhausted:
  "(\<forall>j. i \<le> j \<and> j < check_retries cfg \<longrightarrow> \<not> terminal (getBuild env (build_id r) j)) \<Longrightarrow>
   checkLoop cfg env r i =
     (concat (map (waitedAttempt cfg env r) [i..<check_retries cfg]), None)"
proof (induction "check_retries cfg - i" arbitrary: i)
  case 0
  then show ?case by (simp add: checkLoop_done)
next
  case (Suc d)
  then have i: "i < check_retries cfg" and d: "d = check_retries cfg - Suc i" by simp_all
  from Suc.prems i have nt: "\<not> terminal (getBuild env (build_id r) i)" by simp
  have rest: "checkLoop cfg env r (Suc i) =
     (concat (map (waitedAttempt cfg env r) [Suc i..<check_retries cfg]), None)"
    using Suc.hyps(1) [OF d] Suc.prems by simp
  show ?case
    using i by (simp add: checkLoop_wait [OF i nt] rest upt_conv_Cons)
qed

lemma sleeps_of_waited:
  "sleeps_of (concat (map (waitedAttempt cfg env r) [i..<k])) =
     map (\<lambda>j. check_retryIntervalStep cfg * (j + 1)) [i..<k]"
  by (induction k) (auto simp: sleeps_of_append waitedAttempt_def attemptEvents_def)

lemma checkLoop_cases:
  "(\<exists>k. k < check_retries cfg \<and> (\<forall>j<k. \<not> terminal (getBuild env (build_id r) j))
        \<and> terminal (getBuild env (build_id r) k))
   \<or> (\<forall>j<check_retries cfg. \<not> terminal (getBuild env (build_id r) j))"
proof (cases "\<exists>k<check_retries cfg. terminal (getBuild env (build_id r) k)")
  case True
  define k where "k = (LEAST k. k < check_retries cfg \<and> terminal (getBuild env (build_id r) k))"
  from True have "k < check_retries cfg \<and> terminal (getBuild env (build_id r) k)"
    unfolding k_def by (metis (mono_tags, lifting) LeastI)
  moreover have "\<forall>j<k. \<not> terminal (getBuild env (build_id r) j)"
    unfolding k_def using not_less_Least
    by (metis (no_types, lifting) calculation dual_order.strict_trans k_def)
  ultimately show ?thesis by blast
next
  case False
  then show ?thesis by blast
qed

lemma persisted_no_updates: "updates_of evs = [] \<Longrightarrow> persisted r evs = []"
  by (induction r evs rule: persisted.induct) auto

lemma updates_of_waited: "updates_of (concat (map (waitedAttempt cfg env r) [i..<k])) = []"
  by (induction k) (auto simp: updates_of_append waitedAttempt_def attemptEvents_def)

lemma queued_of_waited: "queued_of (concat (map (waitedAttempt cfg env r) [i..<k])) = []"
  by (induction k) (auto simp: queued_of_append waitedAttempt_def attemptEvents_def)

lemma polled_of_waited:
  "polled_of (concat (map (waitedAttempt cfg env r) [i..<k])) = replicate (k - i) (build_id r)"
proof (induction k)
  case 0
  then show ?case by simp
next
  case (Suc k)
  show ?case
  proof (cases "i \<le> k")
    case True
    then have "Suc k - i = Suc (k - i)" by simp
    with True Suc show ?thesis
      by (simp add: polled_of_append waitedAttempt_def attemptEvents_def
          replicate_append_same)
  next
    case False
    then show ?thesis by simp
  qed
qed

text \<open>The loop in closed form: the attempts made and what is returned.\<close>

lemma checkBuildPipelines_found:
  assumes "k < check_retries cfg"
    and "\<forall>j<k. \<not> terminal (getBuild env (build_id r) j)"
    and "terminal (getBuild env (build_id r) k)"
  shows "checkBuildPipelines cfg env r =
          (LogInfo (MsgCheck (ident r) (build_id r)) #
             concat (map (waitedAttempt cfg env r) [0..<k]) @ attemptEvents cfg env r k,
           Some (getBuild env (build_id r) k))"
proof -
  have "checkLoop cfg env r 0 =
      (concat (map (waitedAttempt cfg env r) [0..<k]) @ attemptEvents cfg env r k,
       Some (getBuild env (build_id r) k))"
    using assms by (intro checkLoop_found) auto
  then show ?thesis by (simp add: checkBuildPipelines_def)
qed

lemma checkBuildPipelines_exhausted:
  assumes "\<forall>j<check_retries cfg. \<not> terminal (getBuild env (build_id r) j)"
  shows "checkBuildPipelines cfg env r =
          (LogInfo (MsgCheck (ident r) (build_id r)) #
             concat (map (waitedAttempt cfg env r) [0..<check_retries cfg]), None)"
proof -
  have "checkLoop cfg env r 0 =
      (concat (map (waitedAttempt cfg env r) [0..<check_retries cfg]), None)"
    using assms by (intro checkLoop_exhausted) auto
  then show ?thesis by (simp add: checkBuildPipelines_def)
qed

lemma checkBuildPipelines_cases:
  obtains (found) k where "k < check_retries cfg"
      and "checkBuildPipelines cfg env r =
          (LogInfo (MsgCheck (ident r) (build_id r)) #
             concat (map (waitedAttempt cfg env r) [0..<k]) @ attemptEvents cfg env r k,
           Some (getBuild env (build_id r) k))"
  | (exhausted) "checkBuildPipelines cfg env r =
          (LogInfo (MsgCheck (ident r) (build_id r)) #
             concat (map (waitedAttempt cfg env r) [0..<check_retries cfg]), None)"
  using checkLoop_cases [of cfg env r] checkBuildPipelines_found [of _ cfg env r]
    checkBuildPipelines_exhausted [of cfg env r]
  by blast

lemma checkBuildPipelines_updates: "updates_of (fst (checkBuildPipelines cfg env r)) = []"
  by (cases rule: checkBuildPipelines_cases [of cfg env r])
    (simp_all add: updates_of_append updates_of_waited attemptEvents_def)

lemma checkBuildPipelines_queued: "queued_of (fst (checkBuildPipelines cfg env r)) = []"
  by (cases rule: checkBuildPipelines_cases [of cfg env r])
    (simp_all add: queued_of_append queued_of_waited attemptEvents_def)

lemma checkBuildPipelines_polled:
  "set (polled_of (fst (checkBuildPipelines cfg env r))) \<subseteq> {build_id r}"
  by (cases rule: checkBuildPipelines_cases [of cfg env r])
    (auto simp: polled_of_append polled_of_waited attemptEvents_def)

lemma checkBuildPipelines_polled_some:
  "0 < check_retries cfg \<Longrightarrow> polled_of (fst (checkBuildPipelines cfg env r)) \<noteq> []"
  by (cases rule: checkBuildPipelines_cases [of cfg env r])
    (auto simp: polled_of_append polled_of_waited attemptEvents_def)

lemma checkBuildPipelines_sleeps:
  "\<exists>k \<le> check_retries cfg. sleeps_of (fst (checkBuildPipelines cfg env r)) =
     map (\<lambda>j. check_retryIntervalStep cfg * (j + 1)) [0..<k]"
proof (cases rule: checkBuildPipelines_cases [of cfg env r])
  case (found k)
  then have "sleeps_of (fst (checkBuildPipelines cfg env r)) =
     map (\<lambda>j. check_retryIntervalStep cfg * (j + 1)) [0..<k]"
    by (simp add: sleeps_of_append sleeps_of_waited attemptEvents_def del: mult_Suc_right)
  with found(1) show ?thesis by (intro exI [of _ k]) simp
next
  case exhausted
  then have "sleeps_of (fst (checkBuildPipelines cfg env r)) =
     map (\<lambda>j. check_retryIntervalStep cfg * (j + 1)) [0..<check_retries cfg]"
    by (simp add: sleeps_of_append sleeps_of_waited attemptEvents_def del: mult_Suc_right)
  then show ?thesis by (intro exI [of _ "check_retries cfg"]) simp
qed

lemma upt_3: "[0..<3] = [0, 1, 2]"
  by (simp add: upt_rec)

lemma upt_2: "[0..<2] = [0, 1]"
  by (simp add: upt_rec)

lemma sorted_backoff: "sorted (map (\<lambda>j. (s::nat) * (j + 1)) [i..<k])"
  by (simp add: sorted_map sorted_wrt_iff_nth_less)

text \<open>
  C7. In \<open>checkBuildPipelines\<close> the attempt with index \<open>k\<close>, reached after \<open>k\<close>
  answers that are neither Completed nor Cancelling, returns a Completed or Cancelling
  build at once: the trace ends with that attempt and no wait follows it. Every attempt
  \<open>i\<close> before it is followed by one wait of \<open>retryIntervalStep * (i + 1)\<close>; when no
  attempt up to \<open>retries - 1\<close> ends the loop, every one of them is followed by its wait
  and the loop returns no result. The waits of a run are therefore
  \<open>retryIntervalStep * 1, retryIntervalStep * 2, ...\<close>, a non-decreasing sequence.
\<close>

theorem checkBuildPipelines_backoff:
  "(k < check_retries cfg \<and> (\<forall>j<k. \<not> terminal (getBuild env (build_id r) j))
      \<and> terminal (getBuild env (build_id r) k) \<longrightarrow>
      checkBuildPipelines cfg env r =
        (LogInfo (MsgCheck (ident r) (build_id r)) #
           concat (map (waitedAttempt cfg env r) [0..<k]) @ attemptEvents cfg env r k,
         Some (getBuild env (build_id r) k))
      \<and> sleeps_of (fst (checkBuildPipelines cfg env r)) =
          map (\<lambda>i. check_retryIntervalStep cfg * (i + 1)) [0..<k])
   \<and> ((\<forall>j<check_retries cfg. \<not> terminal (getBuild env (build_id r) j)) \<longrightarrow>
      checkBuildPipelines cfg env r =
        (LogInfo (MsgCheck (ident r) (build_id r)) #
           concat (map (waitedAttempt cfg env r) [0..<check_retries cfg]), None)
      \<and> sleeps_of (fst (checkBuildPipelines cfg env r)) =
          map (\<lambda>i. check_retryIntervalStep cfg * (i + 1)) [0..<check_retries cfg])
   \<and> sorted (sleeps_of (fst (checkBuildPipelines cfg env r)))"
proof (intro conjI impI)
  assume a: "k < check_retries cfg \<and> (\<forall>j<k. \<not> terminal (getBuild env (build_id r) j))
      \<and> terminal (getBuild env (build_id r) k)"
  then show f: "checkBuildPipelines cfg env r =
        (LogInfo (MsgCheck (ident r) (build_id r)) #
           concat (map (waitedAttempt cfg env r) [0..<k]) @ attemptEvents cfg env r k,
         Some (getBuild env (build_id r) k))"
    by (intro checkBuildPipelines_found) auto
  show "sleeps_of (fst (checkBuildPipelines cfg env r)) =
          map (\<lambda>i. check_retryIntervalStep cfg * (i + 1)) [0..<k]"
    unfolding f
    by (simp add: sleeps_of_append sleeps_of_waited attemptEvents_def del: mult_Suc_right)
next
  assume a: "\<forall>j<check_retries cfg. \<not> terminal (getBuild env (build_id r) j)"
  then show f: "checkBuildPipelines cfg env r =
        (LogInfo (MsgCheck (ident r) (build_id r)) #
           concat (map (waitedAttempt cfg env r) [0..<check_retries cfg]), None)"
    by (rule checkBuildPipelines_exhausted)
  show "sleeps_of (fst (checkBuildPipelines cfg env r)) =
          map (\<lambda>i. check_retryIntervalStep cfg * (i + 1)) [0..<check_retries cfg]"
    unfolding f
    by (simp add: sleeps_of_append sleeps_of_waited del: mult_Suc_right)
next
  from checkBuildPipelines_sleeps [of cfg env r]
  show "sorted (sleeps_of (fst (checkBuildPipelines cfg env r)))"
    using sorted_backoff by auto
qed

theorem checkBuildPipelines_backoff_witness:
  "\<not> terminal (getBuild (env0 (third (completed Failed)) '''') ''99'' 0)
   \<and> \<not> terminal (getBuild (env0 (third (completed Failed)) '''') ''99'' 1)
   \<and> terminal (getBuild (env0 (third (completed Failed)) '''') ''99'' 2)
   \<and> checkBuildPipelines cfg0 (env0 (third (completed Failed)) '''') (release0\<lparr>build_id := ''99''\<rparr>) =
       ([LogInfo (MsgCheck 7 ''99''),
         GetBuild ''openupm'' ''99'', LogInfo (MsgStatus 7 ''99'' InProgress None 0), Sleep 1000,
         GetBuild ''openupm'' ''99'', LogInfo (MsgStatus 7 ''99'' InProgress None 1), Sleep 2000,
         GetBuild ''openupm'' ''99'', LogInfo (MsgStatus 7 ''99'' Completed (Some Failed) 2)],
        Some (completed Failed))
   \<and> sleeps_of (fst (checkBuildPipelines cfg0 (env0 (\<lambda>i. inProgress) '''')
         (release0\<lparr>build_id := ''99''\<rparr>))) = [1000, 2000, 3000]
   \<and> snd (checkBuildPipelines cfg0 (env0 (\<lambda>i. inProgress) '''')
         (release0\<lparr>build_id := ''99''\<rparr>)) = None"
proof -
  let ?r = "release0\<lparr>build_id := ''99''\<rparr>"
  let ?e = "env0 (third (completed Failed)) ''''"
  let ?b = "env0 (\<lambda>i. inProgress) ''''"
  have t: "\<not> terminal (getBuild ?e ''99'' 0)" "\<not> terminal (getBuild ?e ''99'' 1)"
    "terminal (getBuild ?e ''99'' 2)"
    by (simp_all add: env0_def third_def inProgress_def completed_def terminal_def)
  have h1: "2 < check_retries cfg0 \<and> (\<forall>j<2. \<not> terminal (getBuild ?e (build_id ?r) j))
      \<and> terminal (getBuild ?e (build_id ?r) 2)"
    using t by (auto simp: cfg0_def release0_def less_Suc_eq numeral_2_eq_2)
  have h2: "\<forall>j<check_retries cfg0. \<not> terminal (getBuild ?b (build_id ?r) j)"
    by (simp add: env0_def inProgress_def terminal_def)
  from checkBuildPipelines_backoff [of 2 cfg0 ?e ?r] h1
  have a: "checkBuildPipelines cfg0 ?e ?r =
        (LogInfo (MsgCheck (ident ?r) (build_id ?r)) #
           concat (map (waitedAttempt cfg0 ?e ?r) [0..<2]) @ attemptEvents cfg0 ?e ?r 2,
         Some (getBuild ?e (build_id ?r) 2))" by blast
  from checkBuildPipelines_backoff [of 2 cfg0 ?b ?r] h2
  have b: "checkBuildPipelines cfg0 ?b ?r =
        (LogInfo (MsgCheck (ident ?r) (build_id ?r)) #
           concat (map (waitedAttempt cfg0 ?b ?r) [0..<check_retries cfg0]), None)"
    and c: "sleeps_of (fst (checkBuildPipelines cfg0 ?b ?r)) =
          map (\<lambda>i. check_retryIntervalStep cfg0 * (i + 1)) [0..<check_retries cfg0]"
    by blast+
  have a': "checkBuildPipelines cfg0 ?e ?r =
       ([LogInfo (MsgCheck 7 ''99''),
         GetBuild ''openupm'' ''99'', LogInfo (MsgStatus 7 ''99'' InProgress None 0), Sleep 1000,
         GetBuild ''openupm'' ''99'', LogInfo (MsgStatus 7 ''99'' InProgress None 1), Sleep 2000,
         GetBuild ''openupm'' ''99'', LogInfo (MsgStatus 7 ''99'' Completed (Some Failed) 2)],
        Some (completed Failed))"
    unfolding a
    by (simp add: upt_2 waitedAttempt_def attemptEvents_def cfg0_def release0_def env0_def
        third_def inProgress_def completed_def)
  have c': "sleeps_of (fst (checkBuildPipelines cfg0 ?b ?r)) = [1000, 2000, 3000]"
    unfolding c by (simp add: cfg0_def upt_3)
  have b': "snd (checkBuildPipelines cfg0 ?b ?r) = None"
    unfolding b by simp
  from t a' c' b' show ?thesis by blast
qed

subsection \<open>The builder\<close>

lemma update_simps:
  "update r [] = r"
  "update r (F_state s # fs) = update (r\<lparr>state := s\<rparr>) fs"
  "update r (F_build_id b # fs) = update (r\<lparr>build_id := b\<rparr>) fs"
  "update r (F_reason x # fs) = update (r\<lparr>reason := x\<rparr>) fs"
  "update r (F_publish_log l # fs) = update (r\<lparr>publish_log := l\<rparr>) fs"
  by (simp_all add: update_def)

lemma build_skip:
  "state r = succeeded \<Longrightarrow> build cfg env r = ([LogInfo (MsgSkip (ident r) succeeded)], r, Inr ())"
  by (simp add: build_def)

lemma build_unfold:
  "state r \<noteq> succeeded \<Longrightarrow>
   build cfg env r =
     (eventsBeforePolling cfg env r @ fst (polling cfg env r) @
        fst (finishBuild env (beforePolling cfg env r) (snd (polling cfg env r))),
      snd (finishBuild env (beforePolling cfg env r) (snd (polling cfg env r))))"
  by (simp add: build_def eventsBeforePolling_def beforePolling_def polling_def
      split_beta Let_def)

lemma finishBuild_timeout:
  "finishBuild env r None =
     ([Update [F_state failed, F_reason timeout]], r\<lparr>state := failed, reason := timeout\<rparr>,
      Inl (PipelinesTimeout (ident r) (build_id r)))"
  by (simp add: finishBuild_def update_simps Let_def)

lemma finishBuild_succeeded:
  "status b = Completed \<Longrightarrow> result b = Some Succeeded \<Longrightarrow>
   finishBuild env r (Some b) =
     ([Update [F_state succeeded], LogInfo (MsgSucceeded (ident r) (build_id r))],
      r\<lparr>state := succeeded\<rparr>, Inr ())"
  by (simp add: finishBuild_def update_simps Let_def)

lemma finishBuild_failed:
  assumes "status b = Completed" and "result b = Some Failed"
    and "url = buildPublishResultUrl env (r\<lparr>state := failed\<rparr>)"
    and "publishLog = httpGetText env url"
    and "rsn = getReasonFromPublishLog publishLog"
  shows "finishBuild env r (Some b) =
     (if rsn \<noteq> badGateway \<and> rsn \<noteq> serverError then
        ([Update [F_state failed], HttpGet url, Update [F_publish_log publishLog, F_reason rsn],
          LogError (MsgFailed (ident r) (build_id r) Completed (Some Failed) rsn)],
         r\<lparr>state := failed, publish_log := publishLog, reason := rsn\<rparr>, Inr ())
      else
        ([Update [F_state failed], HttpGet url, Update [F_publish_log publishLog, F_reason rsn]],
         r\<lparr>state := failed, publish_log := publishLog, reason := rsn\<rparr>,
         Inl (PipelinesFailed (ident r) (build_id r) Completed (Some Failed))))"
  using assms by (simp add: finishBuild_def getPublishLog_def update_simps Let_def)

lemma finishBuild_other:
  assumes "\<not> (status b = Completed \<and> result b = Some Succeeded)"
    and "\<not> (status b = Completed \<and> result b = Some Failed)"
  shows "finishBuild env r (Some b) =
     ([Update [F_state failed],
       LogError (MsgFailed (ident r) (build_id r) (status b) (result b) reasonNone)],
      r\<lparr>state := failed\<rparr>, Inr ())"
  using assms by (auto simp: finishBuild_def update_simps Let_def)

lemma CreateBuildPipelines_queued:
  "length (queued_of (fst (CreateBuildPipelines cfg env r))) = 1"
  by (simp add: CreateBuildPipelines_def Let_def)

lemma CreateBuildPipelines_updates: "updates_of (fst (CreateBuildPipelines cfg env r)) = []"
  by (simp add: CreateBuildPipelines_def Let_def)

lemma CreateBuildPipelines_polled: "polled_of (fst (CreateBuildPipelines cfg env r)) = []"
  by (simp add: CreateBuildPipelines_def Let_def)

lemma finishBuild_queued: "queued_of (fst (finishBuild env r res)) = []"
  by (simp add: finishBuild_def getPublishLog_def Let_def split_beta split: option.splits)

lemma finishBuild_polled: "polled_of (fst (finishBuild env r res)) = []"
  by (simp add: finishBuild_def getPublishLog_def Let_def split_beta split: option.splits)

lemma finishBuild_build_id: "build_id (fst (snd (finishBuild env r res))) = build_id r"
  by (simp add: finishBuild_def getPublishLog_def Let_def split_beta update_simps
      split: option.splits)

lemma polling_updates: "updates_of (fst (polling cfg env r)) = []"
  by (simp add: polling_def checkBuildPipelines_updates)

lemma polling_persisted: "persisted x (fst (polling cfg env r)) = []"
  by (simp add: persisted_no_updates polling_updates)

lemma before_resume:
  assumes "state r = failed" and "reason r = timeout" and "build_id r \<noteq> []"
  shows "eventsBeforePolling cfg env r = [Update [F_state building], GetBuildApi]"
    and "beforePolling cfg env r = r\<lparr>state := building\<rparr>"
  using assms
  by (simp_all add: eventsBeforePolling_def beforePolling_def handleBuildingState_def
      startBuildPipelines_def update_simps)

lemma before_create:
  assumes "state r = failed" and "reason r = timeout" and "build_id r = []"
    and "new = string_of_nat (build_ident (snd (CreateBuildPipelines cfg env (r\<lparr>state := building\<rparr>))))"
  shows "eventsBeforePolling cfg env r =
      [Update [F_state building], GetBuildApi] @
      fst (CreateBuildPipelines cfg env (r\<lparr>state := building\<rparr>)) @
      [Update [F_build_id new], Sleep (check_duration cfg)]"
    and "beforePolling cfg env r = r\<lparr>state := building, build_id := new\<rparr>"
  using assms
  by (simp_all add: eventsBeforePolling_def beforePolling_def handleBuildingState_def
      startBuildPipelines_def update_simps split_beta Let_def)

lemma before_fresh:
  assumes "state r = pending \<or> (state r = failed \<and> reason r \<noteq> timeout)"
    and "new = string_of_nat (build_ident (snd (CreateBuildPipelines cfg env
           (r\<lparr>state := building, build_id := ''''\<rparr>))))"
  shows "eventsBeforePolling cfg env r =
      [Update [F_state building, F_build_id ''''], GetBuildApi] @
      fst (CreateBuildPipelines cfg env (r\<lparr>state := building, build_id := ''''\<rparr>)) @
      [Update [F_build_id new], Sleep (check_duration cfg)]"
    and "beforePolling cfg env r = r\<lparr>state := building, build_id := new\<rparr>"
  using assms
  by (auto simp: eventsBeforePolling_def beforePolling_def handleBuildingState_def
      startBuildPipelines_def update_simps split_beta Let_def)

lemma persisted_CreateBuildPipelines: "persisted x (fst (CreateBuildPipelines cfg env r)) = []"
  by (simp add: persisted_no_updates CreateBuildPipelines_updates)

lemma replay_append: "replay r (a @ b) = replay (replay r a) b"
  by (induction r a rule: replay.induct) auto

lemma persisted_append_replay: "persisted r (a @ b) = persisted r a @ persisted (replay r a) b"
  by (induction r a rule: persisted.induct) auto

lemma replay_no_updates: "updates_of evs = [] \<Longrightarrow> replay r evs = r"
  by (induction r evs rule: replay.induct) auto

lemma replay_last: "replay r evs = last (r # persisted r evs)"
  by (induction r evs rule: persisted.induct) auto

lemma replay_CreateBuildPipelines: "replay x (fst (CreateBuildPipelines cfg env r)) = x"
  by (simp add: replay_no_updates CreateBuildPipelines_updates)

lemma before_replay: "replay r (eventsBeforePolling cfg env r) = beforePolling cfg env r"
  by (simp add: eventsBeforePolling_def beforePolling_def handleBuildingState_def
      startBuildPipelines_def update_simps split_beta Let_def replay_append
      replay_CreateBuildPipelines)

lemma polling_replay: "replay x (fst (polling cfg env r)) = x"
  by (simp add: replay_no_updates polling_updates)

lemma beforePolling_ident: "ident (beforePolling cfg env r) = ident r"
  by (simp add: beforePolling_def handleBuildingState_def
      startBuildPipelines_def update_simps split_beta Let_def)

lemma build_persisted:
  "state r \<noteq> succeeded \<Longrightarrow>
   persisted r (fst (build cfg env r)) =
     persisted r (eventsBeforePolling cfg env r) @
     persisted (beforePolling cfg env r)
       (fst (finishBuild env (beforePolling cfg env r) (snd (polling cfg env r))))"
  by (simp add: build_unfold persisted_append_replay before_replay polling_persisted
      polling_replay)

lemma build_replay:
  "state r \<noteq> succeeded \<Longrightarrow>
   replay r (fst (build cfg env r)) =
     replay (beforePolling cfg env r)
       (fst (finishBuild env (beforePolling cfg env r) (snd (polling cfg env r))))"
  by (simp add: build_unfold replay_append before_replay polling_replay)

lemma finishBuild_persisted_build_id:
  "p \<in> set (persisted x (fst (finishBuild env x res))) \<Longrightarrow> build_id p = build_id x"
  by (auto simp: finishBuild_def getPublishLog_def Let_def split_beta update_simps
      split: option.splits if_splits)

lemma build_trace_sections:
  "state r \<noteq> succeeded \<Longrightarrow>
   fst (build cfg env r) =
     eventsBeforePolling cfg env r @
     fst (checkBuildPipelines cfg env (beforePolling cfg env r)) @
     fst (finishBuild env (beforePolling cfg env r)
       (snd (checkBuildPipelines cfg env (beforePolling cfg env r))))"
  by (simp add: build_unfold polling_def)

subsection \<open>The builder on the example inputs\<close>

lemma ex_beforePolling:
  "beforePolling cfg0 (env0 a l) release0 = release0\<lparr>state := building, build_id := ''99''\<rparr>"
  by code_simp

lemma ex_polling_third:
  "polling cfg0 (env0 (third b) l) release0 =
    ([LogInfo (MsgCheck 7 ''99''),
      GetBuild ''openupm'' ''99'', LogInfo (MsgStatus 7 ''99'' InProgress None 0), Sleep 1000,
      GetBuild ''openupm'' ''99'', LogInfo (MsgStatus 7 ''99'' InProgress None 1), Sleep 2000,
      GetBuild ''openupm'' ''99'', LogInfo (MsgStatus 7 ''99'' (status b) (result b) 2)] @
     (if status b = Completed \<or> status b = Cancelling then [] else [Sleep 3000]),
     if status b = Completed \<or> status b = Cancelling then Some b else None)"
proof -
  have "polling cfg0 (env0 (third b) l) release0 =
      checkBuildPipelines cfg0 (env0 (third b) l) (release0\<lparr>state := building, build_id := ''99''\<rparr>)"
    by (simp only: polling_def ex_beforePolling)
  also have "\<dots> =
    ([LogInfo (MsgCheck 7 ''99''),
      GetBuild ''openupm'' ''99'', LogInfo (MsgStatus 7 ''99'' InProgress None 0), Sleep 1000,
      GetBuild ''openupm'' ''99'', LogInfo (MsgStatus 7 ''99'' InProgress None 1), Sleep 2000,
      GetBuild ''openupm'' ''99'', LogInfo (MsgStatus 7 ''99'' (status b) (result b) 2)] @
     (if status b = Completed \<or> status b = Cancelling then [] else [Sleep 3000]),
     if status b = Completed \<or> status b = Cancelling then Some b else None)"
    by (simp add: checkBuildPipelines_def checkLoop.simps
      cfg0_def env0_def third_def inProgress_def release0_def)
  finally show ?thesis .
qed

lemma ex_new_id:
  "string_of_nat (build_ident (snd (CreateBuildPipelines cfg0 (env0 a l) x))) = ''99''"
  by (simp add: CreateBuildPipelines_def env0_def Let_def string_of_nat.simps digit_def)

lemma ex_reason_conflict:
  "getReasonFromPublishLog ''npm ERR! code EPUBLISHCONFLICT'' = publishConflict"
  by code_simp

lemma ex_reason_502: "getReasonFromPublishLog ''npm ERR! error code E502'' = badGateway"
  by code_simp

lemma ex_url:
  "buildPublishResultUrl (env0 a l) x = ''https://example.org/log/'' @ build_id x"
  by (simp add: env0_def)

lemma ex_log: "httpGetText (env0 a l) u = l"
  by (simp add: env0_def)

lemma ex_polling_terminal:
  "status b = Completed \<or> status b = Cancelling \<Longrightarrow>
   snd (polling cfg0 (env0 (third b) l) release0) = Some b"
  by (simp add: ex_polling_third)

subsection \<open>The claims about the builder\<close>

text \<open>
  C6, as stated, fails: invoked for a release that the record store holds in state
  succeeded, the job issues one record-store operation, the read \<open>Release.fetchOne\<close>
  by which \<open>buildRelease\<close> loads the release.
\<close>

theorem buildRelease_succeeded_reads:
  "state (fetchRelease envSucceeded 7) = succeeded
   \<and> fst (buildRelease cfg0 envSucceeded 7) =
       [ReleaseFetchOne 7, LogInfo (MsgSkip 7 succeeded)]"
  by (simp add: buildRelease_def build_def envSucceeded_def release0_def)

text \<open>
  C6, as amended. Invoked for a release whose state is succeeded, the job performs zero
  updates and no external call other than the one read that loads the release:
  \<open>buildRelease\<close> reads the release, the builder writes its one log line and returns.
  The trace holds no update, no pipeline call (neither a queued build nor a status
  request), no log fetch and no other record-store operation; the release is returned
  as it was loaded and the record store holds what it held.
\<close>

theorem buildRelease_succeeded_noop:
  assumes "fetchRelease env i = r" and "state r = succeeded"
  shows "buildRelease cfg env i =
        ([ReleaseFetchOne i, LogInfo (MsgSkip (ident r) succeeded)], r, Inr ())
    \<and> build cfg env r = ([LogInfo (MsgSkip (ident r) succeeded)], r, Inr ())
    \<and> updates_of (fst (buildRelease cfg env i)) = []
    \<and> persisted r (fst (buildRelease cfg env i)) = []
    \<and> replay r (fst (buildRelease cfg env i)) = r
    \<and> queued_of (fst (buildRelease cfg env i)) = []
    \<and> polled_of (fst (buildRelease cfg env i)) = []
    \<and> updates_of (fst (build cfg env r)) = []
    \<and> persisted r (fst (build cfg env r)) = []
    \<and> replay r (fst (build cfg env r)) = r
    \<and> queued_of (fst (build cfg env r)) = []
    \<and> polled_of (fst (build cfg env r)) = []"
proof -
  have b: "build cfg env r = ([LogInfo (MsgSkip (ident r) succeeded)], r, Inr ())"
    using assms(2) by (rule build_skip)
  have br: "buildRelease cfg env i =
        ([ReleaseFetchOne i, LogInfo (MsgSkip (ident r) succeeded)], r, Inr ())"
    by (simp add: buildRelease_def assms(1) b)
  show ?thesis unfolding br b by simp
qed

theorem buildRelease_succeeded_noop_witness:
  "fetchRelease envSucceeded 7 = release0\<lparr>state := succeeded\<rparr>
   \<and> state (release0\<lparr>state := succeeded\<rparr>) = succeeded
   \<and> buildRelease cfg0 envSucceeded 7 =
       ([ReleaseFetchOne 7, LogInfo (MsgSkip 7 succeeded)], release0\<lparr>state := succeeded\<rparr>, Inr ())
   \<and> updates_of (fst (buildRelease cfg0 envSucceeded 7)) = []"
proof -
  have h1: "fetchRelease envSucceeded 7 = release0\<lparr>state := succeeded\<rparr>"
    by (simp add: envSucceeded_def)
  have h2: "state (release0\<lparr>state := succeeded\<rparr>) = succeeded" by simp
  have id: "ident (release0\<lparr>state := succeeded\<rparr>) = 7" by (simp add: release0_def)
  from buildRelease_succeeded_noop [OF h1 h2, of cfg0]
  have a: "buildRelease cfg0 envSucceeded 7 =
        ([ReleaseFetchOne 7, LogInfo (MsgSkip (ident (release0\<lparr>state := succeeded\<rparr>)) succeeded)],
         release0\<lparr>state := succeeded\<rparr>, Inr ())"
    and b: "updates_of (fst (buildRelease cfg0 envSucceeded 7)) = []"
    by blast+
  from h1 h2 a [unfolded id] b show ?thesis by blast
qed

text \<open>
  C4. A release in state failed with reason timeout and a non-empty build id is moved
  to state building by an update that writes the state alone; nothing is queued;
  every status request of the run names the release's own build id (and there is one as
  soon as the retry count is positive); no update of the run changes the build id.
\<close>

theorem build_resume:
  assumes "state r = failed" and "reason r = timeout" and "build_id r \<noteq> []"
  shows "eventsBeforePolling cfg env r = [Update [F_state building], GetBuildApi]
    \<and> beforePolling cfg env r = r\<lparr>state := building\<rparr>
    \<and> fst (build cfg env r) =
        [Update [F_state building], GetBuildApi] @
        fst (checkBuildPipelines cfg env (r\<lparr>state := building\<rparr>)) @
        fst (finishBuild env (r\<lparr>state := building\<rparr>)
          (snd (checkBuildPipelines cfg env (r\<lparr>state := building\<rparr>))))
    \<and> queued_of (fst (build cfg env r)) = []
    \<and> set (polled_of (fst (build cfg env r))) \<subseteq> {build_id r}
    \<and> (0 < check_retries cfg \<longrightarrow> polled_of (fst (build cfg env r)) \<noteq> [])
    \<and> (\<forall>p \<in> set (persisted r (fst (build cfg env r))). build_id p = build_id r)
    \<and> build_id (fst (snd (build cfg env r))) = build_id r"
proof -
  from assms have ns: "state r \<noteq> succeeded" by simp
  note ev = before_resume(1) [OF assms, of cfg env]
  note bp = before_resume(2) [OF assms, of cfg env]
  have tr: "fst (build cfg env r) =
        [Update [F_state building], GetBuildApi] @
        fst (checkBuildPipelines cfg env (r\<lparr>state := building\<rparr>)) @
        fst (finishBuild env (r\<lparr>state := building\<rparr>)
          (snd (checkBuildPipelines cfg env (r\<lparr>state := building\<rparr>))))"
    using build_trace_sections [OF ns, of cfg env] by (simp add: ev bp)
  have q: "queued_of (fst (build cfg env r)) = []"
    unfolding tr by (simp add: queued_of_append checkBuildPipelines_queued finishBuild_queued)
  have po: "polled_of (fst (build cfg env r)) =
      polled_of (fst (checkBuildPipelines cfg env (r\<lparr>state := building\<rparr>)))"
    unfolding tr by (simp add: polled_of_append finishBuild_polled)
  have p1: "set (polled_of (fst (build cfg env r))) \<subseteq> {build_id r}"
    unfolding po using checkBuildPipelines_polled [of cfg env "r\<lparr>state := building\<rparr>"] by simp
  have p2: "0 < check_retries cfg \<longrightarrow> polled_of (fst (build cfg env r)) \<noteq> []"
    unfolding po by (simp add: checkBuildPipelines_polled_some)
  have pe: "persisted r (fst (build cfg env r)) =
      r\<lparr>state := building\<rparr> #
      persisted (r\<lparr>state := building\<rparr>) (fst (finishBuild env (r\<lparr>state := building\<rparr>)
          (snd (polling cfg env r))))"
    by (simp add: build_persisted [OF ns] ev bp update_simps)
  have p3: "\<forall>p \<in> set (persisted r (fst (build cfg env r))). build_id p = build_id r"
    unfolding pe using finishBuild_persisted_build_id [of _ "r\<lparr>state := building\<rparr>" env]
    by auto
  have p4: "build_id (fst (snd (build cfg env r))) = build_id r"
    by (simp add: build_unfold [OF ns] finishBuild_build_id bp)
  from ev bp tr q p1 p2 p3 p4 show ?thesis by blast
qed

theorem build_resume_witness:
  "state (release0\<lparr>state := failed, reason := timeout, build_id := ''77''\<rparr>) = failed
   \<and> reason (release0\<lparr>state := failed, reason := timeout, build_id := ''77''\<rparr>) = timeout
   \<and> build_id (release0\<lparr>state := failed, reason := timeout, build_id := ''77''\<rparr>) \<noteq> []
   \<and> queued_of (fst (build cfg0 (env0 (third (completed Succeeded)) '''')
        (release0\<lparr>state := failed, reason := timeout, build_id := ''77''\<rparr>))) = []
   \<and> set (polled_of (fst (build cfg0 (env0 (third (completed Succeeded)) '''')
        (release0\<lparr>state := failed, reason := timeout, build_id := ''77''\<rparr>)))) \<subseteq> {''77''}
   \<and> polled_of (fst (build cfg0 (env0 (third (completed Succeeded)) '''')
        (release0\<lparr>state := failed, reason := timeout, build_id := ''77''\<rparr>))) \<noteq> []
   \<and> build_id (fst (snd (build cfg0 (env0 (third (completed Succeeded)) '''')
        (release0\<lparr>state := failed, reason := timeout, build_id := ''77''\<rparr>)))) = ''77''"
proof -
  let ?r = "release0\<lparr>state := failed, reason := timeout, build_id := ''77''\<rparr>"
  have h1: "state ?r = failed" and h2: "reason ?r = timeout" and h3: "build_id ?r \<noteq> []"
    by simp_all
  have c: "0 < check_retries cfg0" by (simp add: cfg0_def)
  from build_resume [OF h1 h2 h3, of cfg0 "env0 (third (completed Succeeded)) ''''"] c
  have "queued_of (fst (build cfg0 (env0 (third (completed Succeeded)) '''') ?r)) = []"
    and "set (polled_of (fst (build cfg0 (env0 (third (completed Succeeded)) '''') ?r)))
      \<subseteq> {build_id ?r}"
    and "polled_of (fst (build cfg0 (env0 (third (completed Succeeded)) '''') ?r)) \<noteq> []"
    and "build_id (fst (snd (build cfg0 (env0 (third (completed Succeeded)) '''') ?r)))
      = build_id ?r"
    by blast+
  then show ?thesis by simp
qed

text \<open>
  C5. A release in state pending, or in state failed with a reason other than
  timeout, is moved to state building with the build id cleared in one update; then
  \<open>CreateBuildPipelines\<close> runs once (one build is queued in the whole run), the id of
  the build it returns is persisted, the builder sleeps for \<open>check.duration\<close>, and only
  then the polling starts, on the new id.
\<close>

theorem build_fresh_start:
  assumes "state r = pending \<or> (state r = failed \<and> reason r \<noteq> timeout)"
    and "r1 = r\<lparr>state := building, build_id := ''''\<rparr>"
    and "new = string_of_nat (build_ident (snd (CreateBuildPipelines cfg env r1)))"
    and "r2 = r\<lparr>state := building, build_id := new\<rparr>"
  shows "fst (build cfg env r) =
        [Update [F_state building, F_build_id ''''], GetBuildApi] @
        fst (CreateBuildPipelines cfg env r1) @
        [Update [F_build_id new], Sleep (check_duration cfg)] @
        fst (checkBuildPipelines cfg env r2) @
        fst (finishBuild env r2 (snd (checkBuildPipelines cfg env r2)))
    \<and> persisted r (eventsBeforePolling cfg env r) = [r1, r2]
    \<and> length (queued_of (fst (build cfg env r))) = 1
    \<and> set (polled_of (fst (build cfg env r))) \<subseteq> {new}"
proof -
  from assms(1) have ns: "state r \<noteq> succeeded" by auto
  from assms have new: "new = string_of_nat (build_ident (snd (CreateBuildPipelines cfg env
           (r\<lparr>state := building, build_id := ''''\<rparr>))))" by simp
  note ev = before_fresh(1) [OF assms(1) new]
  have bp: "beforePolling cfg env r = r2"
    using before_fresh(2) [OF assms(1) new] assms(4) by simp
  have tr: "fst (build cfg env r) =
        [Update [F_state building, F_build_id ''''], GetBuildApi] @
        fst (CreateBuildPipelines cfg env r1) @
        [Update [F_build_id new], Sleep (check_duration cfg)] @
        fst (checkBuildPipelines cfg env r2) @
        fst (finishBuild env r2 (snd (checkBuildPipelines cfg env r2)))"
    using build_trace_sections [OF ns, of cfg env] by (simp add: ev bp assms(2))
  have pe: "persisted r (eventsBeforePolling cfg env r) = [r1, r2]"
    unfolding ev
    by (simp add: persisted_append_replay persisted_CreateBuildPipelines
        replay_CreateBuildPipelines update_simps assms(2,4))
  have q: "length (queued_of (fst (build cfg env r))) = 1"
    unfolding tr
    by (simp add: queued_of_append checkBuildPipelines_queued finishBuild_queued
        CreateBuildPipelines_queued)
  have po: "set (polled_of (fst (build cfg env r))) \<subseteq> {new}"
    unfolding tr using checkBuildPipelines_polled [of cfg env r2]
    by (simp add: polled_of_append finishBuild_polled CreateBuildPipelines_polled assms(4))
  from tr pe q po show ?thesis by blast
qed

theorem build_fresh_start_witness:
  "state release0 = pending
   \<and> length (queued_of (fst (build cfg0 (env0 (third (completed Succeeded)) '''') release0))) = 1
   \<and> persisted release0 (eventsBeforePolling cfg0 (env0 (third (completed Succeeded)) '''') release0) =
       [release0\<lparr>state := building\<rparr>, release0\<lparr>state := building, build_id := ''99''\<rparr>]
   \<and> state (release0\<lparr>state := failed, reason := badGateway, build_id := ''55''\<rparr>) = failed
   \<and> reason (release0\<lparr>state := failed, reason := badGateway, build_id := ''55''\<rparr>) \<noteq> timeout
   \<and> set (polled_of (fst (build cfg0 (env0 (third (completed Succeeded)) '''')
        (release0\<lparr>state := failed, reason := badGateway, build_id := ''55''\<rparr>)))) \<subseteq> {''99''}"
proof -
  let ?e = "env0 (third (completed Succeeded)) ''''"
  let ?f = "release0\<lparr>state := failed, reason := badGateway, build_id := ''55''\<rparr>"
  have h1: "state release0 = pending" by (simp add: release0_def)
  then have h1': "state release0 = pending \<or> (state release0 = failed \<and> reason release0 \<noteq> timeout)"
    by simp
  have h2: "state ?f = failed" "reason ?f \<noteq> timeout" by simp_all
  then have h2': "state ?f = pending \<or> (state ?f = failed \<and> reason ?f \<noteq> timeout)" by simp
  have b0: "release0\<lparr>state := building, build_id := ''''\<rparr> = release0\<lparr>state := building\<rparr>"
    by (simp add: release0_def)
  from build_fresh_start [OF h1' refl refl refl, of cfg0 ?e]
  have a: "length (queued_of (fst (build cfg0 ?e release0))) = 1"
    and b': "persisted release0 (eventsBeforePolling cfg0 ?e release0) =
       [release0\<lparr>state := building, build_id := ''''\<rparr>,
        release0\<lparr>state := building, build_id := string_of_nat (build_ident (snd
          (CreateBuildPipelines cfg0 ?e (release0\<lparr>state := building, build_id := ''''\<rparr>))))\<rparr>]"
    by blast+
  have b: "persisted release0 (eventsBeforePolling cfg0 ?e release0) =
       [release0\<lparr>state := building\<rparr>, release0\<lparr>state := building, build_id := ''99''\<rparr>]"
    unfolding b' ex_new_id b0 ..
  from build_fresh_start [OF h2' refl refl refl, of cfg0 ?e]
  have c': "set (polled_of (fst (build cfg0 ?e ?f))) \<subseteq> {string_of_nat (build_ident (snd
          (CreateBuildPipelines cfg0 ?e (?f\<lparr>state := building, build_id := ''''\<rparr>))))}"
    by blast
  have c: "set (polled_of (fst (build cfg0 ?e ?f))) \<subseteq> {''99''}"
    using c' unfolding ex_new_id .
  from h1 h2 a b c show ?thesis by blast
qed

text \<open>
  C10. A release in state failed with reason timeout and an empty build id is moved
  to state building by an update that writes the state alone; as the build id is still
  empty, one build is queued, its id (never empty) is persisted, and the polling asks
  for that new id.
\<close>

theorem build_timeout_without_build_id:
  assumes "state r = failed" and "reason r = timeout" and "build_id r = []"
    and "r1 = r\<lparr>state := building\<rparr>"
    and "new = string_of_nat (build_ident (snd (CreateBuildPipelines cfg env r1)))"
    and "r2 = r\<lparr>state := building, build_id := new\<rparr>"
  shows "fst (build cfg env r) =
        [Update [F_state building], GetBuildApi] @
        fst (CreateBuildPipelines cfg env r1) @
        [Update [F_build_id new], Sleep (check_duration cfg)] @
        fst (checkBuildPipelines cfg env r2) @
        fst (finishBuild env r2 (snd (checkBuildPipelines cfg env r2)))
    \<and> persisted r (eventsBeforePolling cfg env r) = [r1, r2]
    \<and> length (queued_of (fst (build cfg env r))) = 1
    \<and> new \<noteq> []
    \<and> set (polled_of (fst (build cfg env r))) \<subseteq> {new}"
proof -
  from assms(1) have ns: "state r \<noteq> succeeded" by auto
  from assms have new: "new = string_of_nat (build_ident (snd (CreateBuildPipelines cfg env
           (r\<lparr>state := building\<rparr>))))" by simp
  note ev = before_create(1) [OF assms(1,2,3) new]
  have bp: "beforePolling cfg env r = r2"
    using before_create(2) [OF assms(1,2,3) new] assms(6) by simp
  have tr: "fst (build cfg env r) =
        [Update [F_state building], GetBuildApi] @
        fst (CreateBuildPipelines cfg env r1) @
        [Update [F_build_id new], Sleep (check_duration cfg)] @
        fst (checkBuildPipelines cfg env r2) @
        fst (finishBuild env r2 (snd (checkBuildPipelines cfg env r2)))"
    using build_trace_sections [OF ns, of cfg env] by (simp add: ev bp assms(4))
  have pe: "persisted r (eventsBeforePolling cfg env r) = [r1, r2]"
    unfolding ev
    by (simp add: persisted_append_replay persisted_CreateBuildPipelines
        replay_CreateBuildPipelines update_simps assms(4,6))
  have q: "length (queued_of (fst (build cfg env r))) = 1"
    unfolding tr
    by (simp add: queued_of_append checkBuildPipelines_queued finishBuild_queued
        CreateBuildPipelines_queued)
  have ne: "new \<noteq> []"
    unfolding assms(5) by (rule string_of_nat_not_empty)
  have po: "set (polled_of (fst (build cfg env r))) \<subseteq> {new}"
    unfolding tr using checkBuildPipelines_polled [of cfg env r2]
    by (simp add: polled_of_append finishBuild_polled CreateBuildPipelines_polled assms(6))
  from tr pe q ne po show ?thesis by blast
qed

theorem build_timeout_without_build_id_witness:
  "state (release0\<lparr>state := failed, reason := timeout\<rparr>) = failed
   \<and> reason (release0\<lparr>state := failed, reason := timeout\<rparr>) = timeout
   \<and> build_id (release0\<lparr>state := failed, reason := timeout\<rparr>) = []
   \<and> persisted (release0\<lparr>state := failed, reason := timeout\<rparr>)
        (eventsBeforePolling cfg0 (env0 (third (completed Succeeded)) '''')
          (release0\<lparr>state := failed, reason := timeout\<rparr>)) =
       [release0\<lparr>state := building, reason := timeout\<rparr>,
        release0\<lparr>state := building, reason := timeout, build_id := ''99''\<rparr>]
   \<and> length (queued_of (fst (build cfg0 (env0 (third (completed Succeeded)) '''')
        (release0\<lparr>state := failed, reason := timeout\<rparr>)))) = 1
   \<and> set (polled_of (fst (build cfg0 (env0 (third (completed Succeeded)) '''')
        (release0\<lparr>state := failed, reason := timeout\<rparr>)))) \<subseteq> {''99''}"
proof -
  let ?e = "env0 (third (completed Succeeded)) ''''"
  let ?r = "release0\<lparr>state := failed, reason := timeout\<rparr>"
  have h1: "state ?r = failed" and h2: "reason ?r = timeout" by simp_all
  have h3: "build_id ?r = []" by (simp add: release0_def)
  from build_timeout_without_build_id [OF h1 h2 h3 refl refl refl, of cfg0 ?e]
  have a': "persisted ?r (eventsBeforePolling cfg0 ?e ?r) =
       [?r\<lparr>state := building\<rparr>,
        ?r\<lparr>state := building, build_id := string_of_nat (build_ident (snd
          (CreateBuildPipelines cfg0 ?e (?r\<lparr>state := building\<rparr>))))\<rparr>]"
    and b: "length (queued_of (fst (build cfg0 ?e ?r))) = 1"
    and c': "set (polled_of (fst (build cfg0 ?e ?r))) \<subseteq> {string_of_nat (build_ident (snd
          (CreateBuildPipelines cfg0 ?e (?r\<lparr>state := building\<rparr>))))}"
    by blast+
  have a: "persisted ?r (eventsBeforePolling cfg0 ?e ?r) =
       [release0\<lparr>state := building, reason := timeout\<rparr>,
        release0\<lparr>state := building, reason := timeout, build_id := ''99''\<rparr>]"
    unfolding a' ex_new_id by simp
  have c: "set (polled_of (fst (build cfg0 ?e ?r))) \<subseteq> {''99''}"
    using c' unfolding ex_new_id .
  from h1 h2 h3 a b c show ?thesis by blast
qed

text \<open>
  C3. When every one of the \<open>retries\<close> status requests is answered with a status that is
  neither Completed nor Cancelling, the polling loop returns no result; the builder
  then persists state failed with reason timeout in one update, which is the last event
  of its trace, and throws the timeout error. The record store holds the failed state
  and the timeout reason when the error is thrown.
\<close>

theorem build_timeout:
  assumes "state r \<noteq> succeeded"
    and "\<forall>i<check_retries cfg. \<not> terminal (getBuild env (build_id (beforePolling cfg env r)) i)"
  shows "snd (polling cfg env r) = None
    \<and> build cfg env r =
        (eventsBeforePolling cfg env r @ fst (polling cfg env r) @
           [Update [F_state failed, F_reason timeout]],
         (beforePolling cfg env r)\<lparr>state := failed, reason := timeout\<rparr>,
         Inl (PipelinesTimeout (ident r) (build_id (beforePolling cfg env r))))
    \<and> replay r (fst (build cfg env r)) =
        (beforePolling cfg env r)\<lparr>state := failed, reason := timeout\<rparr>"
proof -
  have none: "snd (polling cfg env r) = None"
    unfolding polling_def using checkBuildPipelines_exhausted [OF assms(2)] by simp
  have b: "build cfg env r =
        (eventsBeforePolling cfg env r @ fst (polling cfg env r) @
           [Update [F_state failed, F_reason timeout]],
         (beforePolling cfg env r)\<lparr>state := failed, reason := timeout\<rparr>,
         Inl (PipelinesTimeout (ident r) (build_id (beforePolling cfg env r))))"
    by (simp add: build_unfold [OF assms(1)] none finishBuild_timeout beforePolling_ident)
  have p: "replay r (fst (build cfg env r)) =
        (beforePolling cfg env r)\<lparr>state := failed, reason := timeout\<rparr>"
    by (simp add: build_replay [OF assms(1)] none finishBuild_timeout update_simps)
  from none b p show ?thesis by blast
qed

theorem build_timeout_witness:
  "state release0 \<noteq> succeeded
   \<and> \<not> terminal inProgress
   \<and> snd (snd (build cfg0 (env0 (\<lambda>i. inProgress) '''') release0)) = Inl (PipelinesTimeout 7 ''99'')
   \<and> replay release0 (fst (build cfg0 (env0 (\<lambda>i. inProgress) '''') release0)) =
       release0\<lparr>state := failed, build_id := ''99'', reason := timeout\<rparr>"
proof -
  let ?e = "env0 (\<lambda>i. inProgress) ''''"
  have h1: "state release0 \<noteq> succeeded" by (simp add: release0_def)
  have t: "\<not> terminal inProgress" by (simp add: terminal_def inProgress_def)
  then have h2: "\<forall>i<check_retries cfg0.
      \<not> terminal (getBuild ?e (build_id (beforePolling cfg0 ?e release0)) i)"
    by (simp add: env0_def)
  from build_timeout [OF h1 h2]
  have b: "build cfg0 ?e release0 =
        (eventsBeforePolling cfg0 ?e release0 @ fst (polling cfg0 ?e release0) @
           [Update [F_state failed, F_reason timeout]],
         (beforePolling cfg0 ?e release0)\<lparr>state := failed, reason := timeout\<rparr>,
         Inl (PipelinesTimeout (ident release0) (build_id (beforePolling cfg0 ?e release0))))"
    and p: "replay release0 (fst (build cfg0 ?e release0)) =
        (beforePolling cfg0 ?e release0)\<lparr>state := failed, reason := timeout\<rparr>"
    by blast+
  have o: "snd (snd (build cfg0 ?e release0)) = Inl (PipelinesTimeout 7 ''99'')"
    unfolding b ex_beforePolling by (simp add: release0_def)
  have p': "replay release0 (fst (build cfg0 ?e release0)) =
       release0\<lparr>state := failed, build_id := ''99'', reason := timeout\<rparr>"
    unfolding p ex_beforePolling by (simp add: release0_def)
  from h1 t o p' show ?thesis by blast
qed

text \<open>
  C1, as stated, fails: in this run the polling ends with Completed and Failed, the
  state and the reason are written by two different updates, and the third record the
  store holds has state failed with the reason and the publish log not yet written.
\<close>

theorem build_failed_not_atomic:
  "snd (polling cfg0 (env0 (third (completed Failed)) ''npm ERR! code EPUBLISHCONFLICT'') release0)
     = Some (completed Failed)
   \<and> updates_of (fst (build cfg0
        (env0 (third (completed Failed)) ''npm ERR! code EPUBLISHCONFLICT'') release0)) =
      [[F_state building, F_build_id ''''], [F_build_id ''99''], [F_state failed],
       [F_publish_log ''npm ERR! code EPUBLISHCONFLICT'', F_reason publishConflict]]
   \<and> persisted release0 (fst (build cfg0
        (env0 (third (completed Failed)) ''npm ERR! code EPUBLISHCONFLICT'') release0)) =
      [release0\<lparr>state := building\<rparr>,
       release0\<lparr>state := building, build_id := ''99''\<rparr>,
       release0\<lparr>state := failed, build_id := ''99''\<rparr>,
       release0\<lparr>state := failed, build_id := ''99'', reason := publishConflict,
         publish_log := ''npm ERR! code EPUBLISHCONFLICT''\<rparr>]"
  by code_simp

text \<open>
  C1, as amended. When the polling ends with a build that is Completed with result
  Failed, the builder persists state failed in one partial update, then fetches the
  publish log, then persists the publish log and the classified reason together in a
  second partial update. Between the two updates the record store holds the release with
  state failed and with the reason and the publish log it had before.
\<close>

theorem build_failed_two_updates:
  assumes "state r \<noteq> succeeded"
    and "snd (polling cfg env r) = Some b"
    and "status b = Completed" and "result b = Some Failed"
    and "r2 = beforePolling cfg env r"
    and "url = buildPublishResultUrl env (r2\<lparr>state := failed\<rparr>)"
    and "publishLog = httpGetText env url"
    and "rsn = getReasonFromPublishLog publishLog"
  shows "fst (build cfg env r) =
        eventsBeforePolling cfg env r @ fst (polling cfg env r) @
        [Update [F_state failed], HttpGet url, Update [F_publish_log publishLog, F_reason rsn]] @
        (if rsn \<noteq> badGateway \<and> rsn \<noteq> serverError
         then [LogError (MsgFailed (ident r) (build_id r2) Completed (Some Failed) rsn)]
         else [])
    \<and> persisted r (fst (build cfg env r)) =
        persisted r (eventsBeforePolling cfg env r) @
        [r2\<lparr>state := failed\<rparr>, r2\<lparr>state := failed, publish_log := publishLog, reason := rsn\<rparr>]
    \<and> fst (snd (build cfg env r)) =
        r2\<lparr>state := failed, publish_log := publishLog, reason := rsn\<rparr>"
proof -
  note fin = finishBuild_failed [OF assms(3,4) assms(6) [unfolded assms(5)]
      assms(7) assms(8)]
  have tr: "fst (build cfg env r) =
        eventsBeforePolling cfg env r @ fst (polling cfg env r) @
        [Update [F_state failed], HttpGet url, Update [F_publish_log publishLog, F_reason rsn]] @
        (if rsn \<noteq> badGateway \<and> rsn \<noteq> serverError
         then [LogError (MsgFailed (ident r) (build_id r2) Completed (Some Failed) rsn)]
         else [])"
    by (simp add: build_unfold [OF assms(1)] assms(2) fin beforePolling_ident assms(5))
  have pe: "persisted r (fst (build cfg env r)) =
        persisted r (eventsBeforePolling cfg env r) @
        [r2\<lparr>state := failed\<rparr>, r2\<lparr>state := failed, publish_log := publishLog, reason := rsn\<rparr>]"
    by (simp add: build_persisted [OF assms(1)] assms(2) fin update_simps assms(5))
  have fi: "fst (snd (build cfg env r)) =
        r2\<lparr>state := failed, publish_log := publishLog, reason := rsn\<rparr>"
    by (simp add: build_unfold [OF assms(1)] assms(2) fin assms(5))
  from tr pe fi show ?thesis by blast
qed

theorem build_failed_two_updates_witness:
  "state release0 \<noteq> succeeded
   \<and> snd (polling cfg0 (env0 (third (completed Failed)) ''npm ERR! code EPUBLISHCONFLICT'') release0)
       = Some (completed Failed)
   \<and> status (completed Failed) = Completed \<and> result (completed Failed) = Some Failed
   \<and> persisted release0 (fst (build cfg0
        (env0 (third (completed Failed)) ''npm ERR! code EPUBLISHCONFLICT'') release0)) =
      persisted release0 (eventsBeforePolling cfg0
        (env0 (third (completed Failed)) ''npm ERR! code EPUBLISHCONFLICT'') release0) @
      [release0\<lparr>state := failed, build_id := ''99''\<rparr>,
       release0\<lparr>state := failed, build_id := ''99'',
         publish_log := ''npm ERR! code EPUBLISHCONFLICT'', reason := publishConflict\<rparr>]"
proof -
  let ?l = "''npm ERR! code EPUBLISHCONFLICT''"
  let ?e = "env0 (third (completed Failed)) ?l"
  let ?r2 = "release0\<lparr>state := building, build_id := ''99''\<rparr>"
  have h1: "state release0 \<noteq> succeeded" by (simp add: release0_def)
  have h3: "status (completed Failed) = Completed" and h4: "result (completed Failed) = Some Failed"
    by (simp_all add: completed_def)
  have h2: "snd (polling cfg0 ?e release0) = Some (completed Failed)"
    using h3 by (simp add: ex_polling_terminal)
  have h5: "?r2 = beforePolling cfg0 ?e release0" by (simp add: ex_beforePolling)
  have h6: "''https://example.org/log/99'' = buildPublishResultUrl ?e (?r2\<lparr>state := failed\<rparr>)"
    by (simp add: ex_url)
  have h7: "?l = httpGetText ?e ''https://example.org/log/99''" by (simp add: ex_log)
  have h8: "publishConflict = getReasonFromPublishLog ?l" by (simp add: ex_reason_conflict)
  from build_failed_two_updates [OF h1 h2 h3 h4 h5 h6 h7 h8]
  have "persisted release0 (fst (build cfg0 ?e release0)) =
        persisted release0 (eventsBeforePolling cfg0 ?e release0) @
        [?r2\<lparr>state := failed\<rparr>,
         ?r2\<lparr>state := failed, publish_log := ?l, reason := publishConflict\<rparr>]"
    by blast
  then have p: "persisted release0 (fst (build cfg0 ?e release0)) =
      persisted release0 (eventsBeforePolling cfg0 ?e release0) @
      [release0\<lparr>state := failed, build_id := ''99''\<rparr>,
       release0\<lparr>state := failed, build_id := ''99'', publish_log := ?l,
         reason := publishConflict\<rparr>]"
    by simp
  from h1 h2 h3 h4 p show ?thesis by blast
qed

text \<open>
  C2. When the polling ends with a build that is Completed with result Failed, the
  builder throws if and only if the reason classified from the publish log is
  badGateway or serverError. In that case the trace ends with the update of the publish
  log and the reason, after the update of the state: the record store holds state
  failed and the reason when the error is thrown. With any other reason, the empty one
  included, the last event is the error log line and the builder returns. A build that
  ends the polling otherwise without having succeeded (a cancellation) is logged with
  the empty reason, with no log fetch, and the builder returns.
\<close>

theorem build_failed_retry:
  assumes "state r \<noteq> succeeded"
    and "snd (polling cfg env r) = Some b"
    and "\<not> (status b = Completed \<and> result b = Some Succeeded)"
    and "r2 = beforePolling cfg env r"
    and "url = buildPublishResultUrl env (r2\<lparr>state := failed\<rparr>)"
    and "publishLog = httpGetText env url"
    and "rsn = getReasonFromPublishLog publishLog"
    and "r3 = r2\<lparr>state := failed, publish_log := publishLog, reason := rsn\<rparr>"
  shows "(status b = Completed \<and> result b = Some Failed \<longrightarrow>
        ((\<exists>e. snd (snd (build cfg env r)) = Inl e) \<longleftrightarrow> rsn = badGateway \<or> rsn = serverError)
        \<and> (rsn = badGateway \<or> rsn = serverError \<longrightarrow>
             build cfg env r =
               (eventsBeforePolling cfg env r @ fst (polling cfg env r) @
                  [Update [F_state failed], HttpGet url,
                   Update [F_publish_log publishLog, F_reason rsn]],
                r3, Inl (PipelinesFailed (ident r) (build_id r2) Completed (Some Failed)))
             \<and> replay r (fst (build cfg env r)) = r3)
        \<and> (rsn \<noteq> badGateway \<and> rsn \<noteq> serverError \<longrightarrow>
             build cfg env r =
               (eventsBeforePolling cfg env r @ fst (polling cfg env r) @
                  [Update [F_state failed], HttpGet url,
                   Update [F_publish_log publishLog, F_reason rsn],
                   LogError (MsgFailed (ident r) (build_id r2) Completed (Some Failed) rsn)],
                r3, Inr ())))
    \<and> (\<not> (status b = Completed \<and> result b = Some Failed) \<longrightarrow>
        build cfg env r =
          (eventsBeforePolling cfg env r @ fst (polling cfg env r) @
             [Update [F_state failed],
              LogError (MsgFailed (ident r) (build_id r2) (status b) (result b) reasonNone)],
           r2\<lparr>state := failed\<rparr>, Inr ()))"
proof (intro conjI impI)
  assume cf: "status b = Completed \<and> result b = Some Failed"
  then have c: "status b = Completed" and f: "result b = Some Failed" by simp_all
  note fin = finishBuild_failed [OF c f assms(5) [unfolded assms(4)]
      assms(6) assms(7)]
  show "(\<exists>e. snd (snd (build cfg env r)) = Inl e) \<longleftrightarrow> rsn = badGateway \<or> rsn = serverError"
    by (auto simp: build_unfold [OF assms(1)] assms(2) fin)
  {
    assume retry: "rsn = badGateway \<or> rsn = serverError"
    then show "build cfg env r =
               (eventsBeforePolling cfg env r @ fst (polling cfg env r) @
                  [Update [F_state failed], HttpGet url,
                   Update [F_publish_log publishLog, F_reason rsn]],
                r3, Inl (PipelinesFailed (ident r) (build_id r2) Completed (Some Failed)))"
      by (auto simp: build_unfold [OF assms(1)] assms(2) fin beforePolling_ident assms(4,8))
    from retry show "replay r (fst (build cfg env r)) = r3"
      by (auto simp: build_replay [OF assms(1)] assms(2) fin update_simps assms(4,8))
  }
  {
    assume "rsn \<noteq> badGateway \<and> rsn \<noteq> serverError"
    then show "build cfg env r =
               (eventsBeforePolling cfg env r @ fst (polling cfg env r) @
                  [Update [F_state failed], HttpGet url,
                   Update [F_publish_log publishLog, F_reason rsn],
                   LogError (MsgFailed (ident r) (build_id r2) Completed (Some Failed) rsn)],
                r3, Inr ())"
      by (simp add: build_unfold [OF assms(1)] assms(2) fin beforePolling_ident assms(4,8))
  }
next
  assume nf: "\<not> (status b = Completed \<and> result b = Some Failed)"
  show "build cfg env r =
          (eventsBeforePolling cfg env r @ fst (polling cfg env r) @
             [Update [F_state failed],
              LogError (MsgFailed (ident r) (build_id r2) (status b) (result b) reasonNone)],
           r2\<lparr>state := failed\<rparr>, Inr ())"
    by (simp add: build_unfold [OF assms(1)] assms(2) finishBuild_other [OF assms(3) nf]
        beforePolling_ident assms(4))
qed

theorem build_failed_retry_witness:
  "state release0 \<noteq> succeeded
   \<and> snd (polling cfg0 (env0 (third (completed Failed)) ''npm ERR! error code E502'') release0)
       = Some (completed Failed)
   \<and> status (completed Failed) = Completed \<and> result (completed Failed) = Some Failed
   \<and> getReasonFromPublishLog ''npm ERR! error code E502'' = badGateway
   \<and> snd (snd (build cfg0 (env0 (third (completed Failed)) ''npm ERR! error code E502'') release0))
       = Inl (PipelinesFailed 7 ''99'' Completed (Some Failed))
   \<and> replay release0
        (fst (build cfg0 (env0 (third (completed Failed)) ''npm ERR! error code E502'') release0))
       = release0\<lparr>state := failed, build_id := ''99'',
           publish_log := ''npm ERR! error code E502'', reason := badGateway\<rparr>
   \<and> getReasonFromPublishLog ''npm ERR! code EPUBLISHCONFLICT'' = publishConflict
   \<and> snd (snd (build cfg0
        (env0 (third (completed Failed)) ''npm ERR! code EPUBLISHCONFLICT'') release0)) = Inr ()
   \<and> status (inProgress\<lparr>status := Cancelling\<rparr>) = Cancelling
   \<and> build cfg0 (env0 (third (inProgress\<lparr>status := Cancelling\<rparr>)) '''') release0 =
       (eventsBeforePolling cfg0 (env0 (third (inProgress\<lparr>status := Cancelling\<rparr>)) '''') release0 @
        fst (polling cfg0 (env0 (third (inProgress\<lparr>status := Cancelling\<rparr>)) '''') release0) @
        [Update [F_state failed], LogError (MsgFailed 7 ''99'' Cancelling None reasonNone)],
        release0\<lparr>state := failed, build_id := ''99''\<rparr>, Inr ())"
proof -
  let ?a = "''npm ERR! error code E502''"
  let ?b = "''npm ERR! code EPUBLISHCONFLICT''"
  let ?ea = "env0 (third (completed Failed)) ?a"
  let ?eb = "env0 (third (completed Failed)) ?b"
  let ?c = "inProgress\<lparr>status := Cancelling\<rparr>"
  let ?ec = "env0 (third ?c) ''''"
  let ?r2 = "release0\<lparr>state := building, build_id := ''99''\<rparr>"
  have h1: "state release0 \<noteq> succeeded" by (simp add: release0_def)
  have c: "status (completed Failed) = Completed" and f: "result (completed Failed) = Some Failed"
    by (simp_all add: completed_def)
  then have h3: "\<not> (status (completed Failed) = Completed \<and> result (completed Failed) = Some Succeeded)"
    by simp
  have pa: "snd (polling cfg0 ?ea release0) = Some (completed Failed)"
    and pb: "snd (polling cfg0 ?eb release0) = Some (completed Failed)"
    using c by (simp_all add: ex_polling_terminal)
  have u: "''https://example.org/log/99'' = buildPublishResultUrl e (?r2\<lparr>state := failed\<rparr>)"
    if "e = env0 x l" for e x l
    using that by (simp add: ex_url)
  have id: "ident release0 = 7" by (simp add: release0_def)
  have ra: "badGateway = getReasonFromPublishLog ?a" by (simp add: ex_reason_502)
  have rb: "publishConflict = getReasonFromPublishLog ?b" by (simp add: ex_reason_conflict)
  have la: "?a = httpGetText ?ea ''https://example.org/log/99''" by (simp add: ex_log)
  have lb: "?b = httpGetText ?eb ''https://example.org/log/99''" by (simp add: ex_log)
  have bp: "?r2 = beforePolling cfg0 (env0 x l) release0" for x l
    by (simp add: ex_beforePolling)
  from build_failed_retry [OF h1 pa h3 bp u [OF refl] la ra refl] c f
  have a1: "build cfg0 ?ea release0 =
      (eventsBeforePolling cfg0 ?ea release0 @ fst (polling cfg0 ?ea release0) @
         [Update [F_state failed], HttpGet ''https://example.org/log/99'',
          Update [F_publish_log ?a, F_reason badGateway]],
       ?r2\<lparr>state := failed, publish_log := ?a, reason := badGateway\<rparr>,
       Inl (PipelinesFailed (ident release0) (build_id ?r2) Completed (Some Failed)))"
    and a2: "replay release0 (fst (build cfg0 ?ea release0)) =
       ?r2\<lparr>state := failed, publish_log := ?a, reason := badGateway\<rparr>"
    by blast+
  have a1': "snd (snd (build cfg0 ?ea release0)) = Inl (PipelinesFailed 7 ''99'' Completed (Some Failed))"
    unfolding a1 by (simp add: id)
  have a2': "replay release0 (fst (build cfg0 ?ea release0)) =
       release0\<lparr>state := failed, build_id := ''99'', publish_log := ?a, reason := badGateway\<rparr>"
    unfolding a2 by simp
  have nb: "publishConflict \<noteq> badGateway \<and> publishConflict \<noteq> serverError" by simp
  from build_failed_retry [OF h1 pb h3 bp u [OF refl] lb rb refl] c f nb
  have b1: "build cfg0 ?eb release0 =
      (eventsBeforePolling cfg0 ?eb release0 @ fst (polling cfg0 ?eb release0) @
         [Update [F_state failed], HttpGet ''https://example.org/log/99'',
          Update [F_publish_log ?b, F_reason publishConflict],
          LogError (MsgFailed (ident release0) (build_id ?r2) Completed (Some Failed) publishConflict)],
       ?r2\<lparr>state := failed, publish_log := ?b, reason := publishConflict\<rparr>, Inr ())"
    by blast
  have b1': "snd (snd (build cfg0 ?eb release0)) = Inr ()"
    unfolding b1 by simp
  have sc: "status ?c = Cancelling" by simp
  then have pc: "snd (polling cfg0 ?ec release0) = Some ?c"
    by (simp add: ex_polling_terminal)
  have n1: "\<not> (status ?c = Completed \<and> result ?c = Some Succeeded)"
    and n2: "\<not> (status ?c = Completed \<and> result ?c = Some Failed)" by simp_all
  from build_failed_retry [OF h1 pc n1 bp refl refl refl refl] n2
  have c1: "build cfg0 ?ec release0 =
      (eventsBeforePolling cfg0 ?ec release0 @ fst (polling cfg0 ?ec release0) @
         [Update [F_state failed],
          LogError (MsgFailed (ident release0) (build_id ?r2) (status ?c) (result ?c) reasonNone)],
       ?r2\<lparr>state := failed\<rparr>, Inr ())"
    by blast
  have c1': "build cfg0 ?ec release0 =
       (eventsBeforePolling cfg0 ?ec release0 @ fst (polling cfg0 ?ec release0) @
        [Update [F_state failed], LogError (MsgFailed 7 ''99'' Cancelling None reasonNone)],
        release0\<lparr>state := failed, build_id := ''99''\<rparr>, Inr ())"
    unfolding c1 by (simp add: id inProgress_def)
  from h1 pa c f ra a1' a2' rb b1' sc c1' show ?thesis by simp
qed

end
